theory Spec2Isabelle
  imports Main "HOL-Library.Word"
begin

section \<open>Bytes, listeners, faults and std::vector accesses\<close>

text \<open>
  A chunk of data is a \<open>std::vector<uint8_t>\<close>: a list of 8-bit words. A listener is
  a \<open>std::function<void(std::vector<uint8_t>)>\<close>: it returns nothing and acts on the
  rest of the program, so it is a function from the chunk to a change of the
  surrounding state \<open>'w\<close>.
\<close>

type_synonym byte = "8 word"

type_synonym 'w listener = "byte list \<Rightarrow> 'w \<Rightarrow> 'w"

text \<open>
  What a call can end with instead of returning: the two exception classes of the
  library, the \<open>winrt::hresult_error\<close> of the platform (it carries the 32-bit HRESULT),
  and an access past the end of a vector, which C++ leaves undefined (nothing is
  thrown; the model stops the call there and says so).
\<close>

datatype fault =
    hresult_error "32 word"
  | BluetoothException string
  | COMException string
  | OutOfRange

text \<open>
  \<open>v.erase(v.begin() + i)\<close> and \<open>v[i]\<close> are defined only for \<open>i < v.size()\<close>
  (\<open>erase(end())\<close> included among the undefined ones).
\<close>

definition vector_erase :: "'a list \<Rightarrow> nat \<Rightarrow> 'a list option" where
  "vector_erase v i = (if i < length v then Some (take i v @ drop (Suc i) v) else None)"

definition vector_at :: "'a list \<Rightarrow> nat \<Rightarrow> 'a option" where
  "vector_at v i = (if i < length v then Some (v ! i) else None)"

section \<open>The serial port: \<open>COMPort\<close> (src/com.cpp)\<close>

text \<open>
  \<open>m_subscriberThread\<close> is a \<open>std::thread\<close>. The model keeps where that thread stands:
  \<^item> \<open>NoThread\<close>: default-constructed or joined; the only state that is not joinable;
  \<^item> \<open>Polling\<close>: started, between two iterations of its \<open>for (;;)\<close> loop;
  \<^item> \<open>Waiting\<close>: blocked in \<open>m_condition.wait(lock)\<close>;
  \<^item> \<open>Woken\<close>: notified while waiting; it continues after the wait once it holds the
    mutex again;
  \<^item> \<open>Finished\<close>: its function has returned; the \<open>std::thread\<close> object stays joinable
    until someone joins it.
  Only a notification wakes the waiting thread here; a spurious wake-up, which the
  code does not guard against, would take it out of the wait the same way.
  Every public call holds \<open>m_mutex\<close> from its first statement on, and the thread holds
  it for a whole iteration (the read, the sleep and the callbacks included), so calls
  and iterations are atomic steps that interleave.
\<close>

datatype thread = NoThread | Polling | Waiting | Woken | Finished

definition joinable :: "thread \<Rightarrow> bool" where
  "joinable t = (t \<noteq> NoThread)"

definition notify_all :: "thread \<Rightarrow> thread" where
  "notify_all t = (if t = Waiting then Woken else t)"

record 'w COMPort =
  m_handle :: "nat option"
  m_subscriberThread :: thread
  m_refreshRate :: nat
  m_exiting :: bool
  m_callbacks :: "'w listener list"

text \<open>
  \<open>COMPort::Read\<close> (src/platform/windows/com.cpp) calls \<open>ReadFile\<close> and returns the
  count it stored, without looking at \<open>ReadFile\<close>'s own result. The platform either
  stores some bytes (at most the buffer's size, none when the port's read timeout
  passed with nothing to read) or fails with an error code; Win32 sets the count to
  zero before it does anything else, so a failed call leaves zero there. The model
  returns the bytes \<open>buffer[0 .. read)\<close>; the count is their length.
\<close>

datatype ReadFile_result = ReadFile_ok "byte list" | ReadFile_failed nat

definition COMPort_Read :: "ReadFile_result \<Rightarrow> nat \<Rightarrow> byte list" where
  "COMPort_Read r sz = (case r of ReadFile_ok bs \<Rightarrow> take sz bs | ReadFile_failed err \<Rightarrow> [])"

text \<open>
  One iteration of the thread's loop (the lambda in \<open>COMPort::Subscribe\<close>), with what
  it did. A thread that stands in \<open>Woken\<close> leaves the wait and executes the \<open>break\<close>
  that follows it.
\<close>

datatype poll_action = ThreadReturn | CondWait | Sleep nat | Deliver "byte list" | LoopBreak | NoStep

definition poll_iteration ::
  "ReadFile_result \<Rightarrow> 'w COMPort \<Rightarrow> 'w \<Rightarrow> 'w COMPort \<times> 'w \<times> poll_action" where
  "poll_iteration r s w =
     (case m_subscriberThread s of
        Polling \<Rightarrow>
          if m_exiting s then (s\<lparr>m_subscriberThread := Finished\<rparr>, w, ThreadReturn)
          else if m_callbacks s = [] then (s\<lparr>m_subscriberThread := Waiting\<rparr>, w, CondWait)
          else
            (let data = COMPort_Read r 128 in
             if length data = 0 then (s, w, Sleep (m_refreshRate s))
             else (s, fold (\<lambda>callback. callback data) (m_callbacks s) w, Deliver data))
      | Woken \<Rightarrow> (s\<lparr>m_subscriberThread := Finished\<rparr>, w, LoopBreak)
      | _ \<Rightarrow> (s, w, NoStep))"

fun poll_iterations :: "ReadFile_result list \<Rightarrow> 'w COMPort \<Rightarrow> 'w \<Rightarrow> 'w COMPort \<times> 'w" where
  "poll_iterations [] s w = (s, w)"
| "poll_iterations (r # rs) s w =
     (case poll_iteration r s w of (s', w', a) \<Rightarrow> poll_iterations rs s' w')"

definition COMPort_Subscribe :: "'w listener \<Rightarrow> 'w COMPort \<Rightarrow> 'w COMPort \<times> nat" where
  "COMPort_Subscribe listener s =
     (let s1 = s\<lparr>m_callbacks := m_callbacks s @ [listener]\<rparr>;
          s2 = s1\<lparr>m_subscriberThread := notify_all (m_subscriberThread s1)\<rparr>;
          s3 = (if \<not> joinable (m_subscriberThread s2)
                then s2\<lparr>m_subscriberThread := Polling\<rparr> else s2)
      in (s3, length (m_callbacks s3) - 1))"

definition COMPort_Unsubscribe :: "nat \<Rightarrow> 'w COMPort \<Rightarrow> fault + 'w COMPort" where
  "COMPort_Unsubscribe lid s =
     (case vector_erase (m_callbacks s) lid of
        None \<Rightarrow> Inl OutOfRange
      | Some cbs \<Rightarrow>
          Inr (s\<lparr>m_callbacks := cbs,
                 m_subscriberThread := notify_all (m_subscriberThread s)\<rparr>))"

text \<open>
  \<open>COMPort::UnsubscribeAll\<close> stores \<open>m_exiting = true\<close> before it takes the mutex, and
  joins the thread while it still holds the mutex. The list \<open>rs\<close> is the schedule: one
  \<open>ReadFile\<close> result for each iteration the thread starts between the store and the
  moment the caller gets the mutex. \<open>join\<close> returns when the thread has finished; a
  thread that still has to take the mutex (at the top of its loop, or to leave the
  wait) never gets it, and the call does not return: the result is \<open>None\<close>.
\<close>

definition COMPort_UnsubscribeAll ::
  "ReadFile_result list \<Rightarrow> 'w COMPort \<Rightarrow> 'w \<Rightarrow> ('w COMPort \<times> 'w) option" where
  "COMPort_UnsubscribeAll rs s w =
     (case poll_iterations rs (s\<lparr>m_exiting := True\<rparr>) w of
        (s1, w1) \<Rightarrow>
          (let s2 = s1\<lparr>m_callbacks := []\<rparr>;
               s3 = s2\<lparr>m_subscriberThread := notify_all (m_subscriberThread s2)\<rparr>
           in if joinable (m_subscriberThread s3)
              then (if m_subscriberThread s3 = Finished
                    then Some (s3\<lparr>m_subscriberThread := NoThread\<rparr>, w1)
                    else None)
              else Some (s3, w1)))"

definition COMPort_Close :: "'w COMPort \<Rightarrow> 'w COMPort" where
  "COMPort_Close s = (if m_handle s \<noteq> None then s\<lparr>m_handle := None\<rparr> else s)"

text \<open>
  A listener that records its own name and the chunk it was called with, appended to
  a log: the log shows who was invoked, with what, and in which order.
\<close>

definition recorder :: "'n \<Rightarrow> ('n \<times> byte list) list listener" where
  "recorder name data log = log @ [(name, data)]"

definition subscribe_all :: "'w listener list \<Rightarrow> 'w COMPort \<Rightarrow> 'w COMPort" where
  "subscribe_all ls s = fold (\<lambda>l s'. fst (COMPort_Subscribe l s')) ls s"

definition COMPort_new :: "nat \<Rightarrow> 'w COMPort" where
  "COMPort_new h =
     \<lparr>m_handle = Some h, m_subscriberThread = NoThread, m_refreshRate = 100,
      m_exiting = False, m_callbacks = []\<rparr>"

section \<open>The timeout-bounded wait: \<open>WaitWithTimeout\<close> and \<open>WINRT_CALL_END\<close>\<close>

text \<open>
  An \<open>IAsyncOperation<R>\<close> of the platform: its status as the clock advances, the
  result \<open>GetResults\<close> hands out once it has completed, and the HRESULT \<open>ErrorCode\<close>
  reports once it has failed. The clock counts ticks of \<open>system_clock\<close>.
\<close>

datatype AsyncStatus = Started | Completed | Canceled | Error

record 'r IAsyncOperation =
  Status :: "nat \<Rightarrow> AsyncStatus"
  GetResults :: 'r
  ErrorCode :: "32 word"

text \<open>
  The \<open>while\<close> loop of \<open>WaitWithTimeout\<close>; it returns the time at which it is left.
  \<open>condition.wait_until(lock, deadline)\<close> comes back on the completion handler's
  notification, on a spurious wake-up or at the deadline, in every case later than it
  was entered: \<open>wake now\<close> is the number of ticks beyond the first that the wait
  entered at \<open>now\<close> takes.
\<close>

function wait_loop :: "(nat \<Rightarrow> AsyncStatus) \<Rightarrow> (nat \<Rightarrow> nat) \<Rightarrow> nat \<Rightarrow> nat \<Rightarrow> nat" where
  "wait_loop status wake deadline now =
     (if now < deadline \<and> status now = Started
      then wait_loop status wake deadline (Suc (now + wake now))
      else now)"
  by pat_completeness auto
termination
  by (relation "measure (\<lambda>(status, wake, deadline, now). deadline - now)") auto

definition WaitWithTimeout ::
  "'r IAsyncOperation \<Rightarrow> (nat \<Rightarrow> nat) \<Rightarrow> nat \<Rightarrow> nat \<Rightarrow> fault + 'r" where
  "WaitWithTimeout task wake now timeout =
     (let deadline = now + timeout;
          t = wait_loop (Status task) wake deadline now
      in case Status task t of
           Completed \<Rightarrow> Inr (GetResults task)
         | Error \<Rightarrow> Inl (hresult_error (ErrorCode task))
         | Canceled \<Rightarrow> Inl (BluetoothException ''Operation cancelled'')
         | Started \<Rightarrow> Inl (BluetoothException ''Operation timed out''))"

text \<open>\<open>std::to_string\<close> of an \<open>int32_t\<close>: decimal digits, with a minus sign in front.\<close>

definition digit_char :: "nat \<Rightarrow> char" where
  "digit_char d = ''0123456789'' ! d"

function string_of_nat :: "nat \<Rightarrow> string" where
  "string_of_nat n =
     (if n < 10 then [digit_char n] else string_of_nat (n div 10) @ [digit_char (n mod 10)])"
  by pat_completeness auto
termination
  by (relation "measure (\<lambda>n. n)") auto

definition to_string :: "int \<Rightarrow> string" where
  "to_string i = (if i < 0 then CHR ''-'' # string_of_nat (nat (- i)) else string_of_nat (nat i))"

text \<open>
  The \<open>catch\<close> clause every platform call of the library ends with. \<open>message\<close> is the
  platform's text for an HRESULT (\<open>err.message()\<close>, already as UTF-8). Any other
  exception passes through.
\<close>

definition WINRT_CALL_END :: "(32 word \<Rightarrow> string) \<Rightarrow> fault + 'a \<Rightarrow> fault + 'a" where
  "WINRT_CALL_END message r =
     (case r of
        Inl (hresult_error code) \<Rightarrow>
          Inl (BluetoothException
                (''Bluetooth error. Code: '' @ to_string (sint code) @
                 ''. Message: '' @ message code))
      | _ \<Rightarrow> r)"

section \<open>The characteristic: \<open>WindowsBluetoothGattCharacteristic\<close>\<close>

datatype GattCommunicationStatus = Success | Unreachable | ProtocolError | AccessDenied

text \<open>
  \<open>GattClientCharacteristicConfigurationDescriptorValue\<close>; its \<open>None\<close> is written
  \<open>DescriptorNone\<close> here.
\<close>

datatype DescriptorValue = DescriptorNone | Notify | Indicate

text \<open>
  What the platform does with one descriptor write: the operation it hands back, how
  the waits on it come back, the time of the call, and its text for HRESULTs.
\<close>

record platform_call =
  call_task :: "GattCommunicationStatus IAsyncOperation"
  call_wake :: "nat \<Rightarrow> nat"
  call_now :: nat
  call_message :: "32 word \<Rightarrow> string"

text \<open>
  The object holds \<open>m_timeout\<close> and \<open>m_subscribers\<close> (the event tokens, in the order of
  the subscriptions). The other fields are the platform's \<open>GattCharacteristic\<close> behind
  \<open>m_characteristic\<close>, which is not code of the repository: the handlers of its
  \<open>ValueChanged\<close> event with their tokens, in the order they were added; the next
  fresh token; the value the notification descriptor holds on the device, which is
  the value of the last write that completed with \<open>Success\<close> within its wait; and the
  descriptor writes issued so far.
\<close>

record 'w WindowsBluetoothGattCharacteristic =
  m_timeout :: nat
  m_subscribers :: "nat list"
  ValueChanged :: "(nat \<times> 'w listener) list"
  next_token :: nat
  descriptor :: DescriptorValue
  descriptor_writes :: "DescriptorValue list"

definition WriteClientCharacteristicConfigurationDescriptor ::
  "platform_call \<Rightarrow> DescriptorValue \<Rightarrow> 'w WindowsBluetoothGattCharacteristic \<Rightarrow>
   'w WindowsBluetoothGattCharacteristic \<times> (fault + GattCommunicationStatus)" where
  "WriteClientCharacteristicConfigurationDescriptor env v c =
     (let r = WaitWithTimeout (call_task env) (call_wake env) (call_now env) (m_timeout c);
          c1 = c\<lparr>descriptor_writes := descriptor_writes c @ [v]\<rparr>
      in (if r = Inr Success then c1\<lparr>descriptor := v\<rparr> else c1, r))"

text \<open>
  The three lines each of \<open>Subscribe\<close>, \<open>Unsubscribe\<close> and \<open>UnsubscribeAll\<close> repeats: write
  the descriptor, and throw unless the result is \<open>Success\<close>.
\<close>

definition write_configuration ::
  "platform_call \<Rightarrow> DescriptorValue \<Rightarrow> 'w WindowsBluetoothGattCharacteristic \<Rightarrow>
   'w WindowsBluetoothGattCharacteristic \<times> (fault + unit)" where
  "write_configuration env v c =
     (case WriteClientCharacteristicConfigurationDescriptor env v c of
        (c1, Inl e) \<Rightarrow> (c1, Inl e)
      | (c1, Inr result) \<Rightarrow>
          if result \<noteq> Success
          then (c1, Inl (BluetoothException ''Failed to write characteristic configuration''))
          else (c1, Inr ()))"

text \<open>Whether the descriptor write the platform answers with \<open>env\<close> ends in \<open>Success\<close>.\<close>

definition write_succeeds :: "platform_call \<Rightarrow> 'w WindowsBluetoothGattCharacteristic \<Rightarrow> bool" where
  "write_succeeds env c =
     (WaitWithTimeout (call_task env) (call_wake env) (call_now env) (m_timeout c) = Inr Success)"

text \<open>Whether that write is still pending when its wait is given up.\<close>

definition write_timed_out :: "platform_call \<Rightarrow> 'w WindowsBluetoothGattCharacteristic \<Rightarrow> bool" where
  "write_timed_out env c =
     (WaitWithTimeout (call_task env) (call_wake env) (call_now env) (m_timeout c) =
        Inl (BluetoothException ''Operation timed out''))"

definition revoke :: "nat \<Rightarrow> (nat \<times> 'w listener) list \<Rightarrow> (nat \<times> 'w listener) list" where
  "revoke token hs = filter (\<lambda>(t, f). t \<noteq> token) hs"

text \<open>
  Each operation returns the object as it is left, and either the value returned or
  the exception thrown: what was done before a \<open>throw\<close> stays done.
\<close>

definition Characteristic_Subscribe ::
  "platform_call \<Rightarrow> 'w listener \<Rightarrow> 'w WindowsBluetoothGattCharacteristic \<Rightarrow>
   'w WindowsBluetoothGattCharacteristic \<times> (fault + nat)" where
  "Characteristic_Subscribe env listener c =
     (case (if m_subscribers c = [] then write_configuration env Notify c else (c, Inr ())) of
        (c1, Inl e) \<Rightarrow> (c1, WINRT_CALL_END (call_message env) (Inl e))
      | (c1, Inr u) \<Rightarrow>
          (let token = next_token c1;
               c2 = c1\<lparr>ValueChanged := ValueChanged c1 @ [(token, listener)],
                       next_token := Suc token\<rparr>;
               c3 = c2\<lparr>m_subscribers := m_subscribers c2 @ [token]\<rparr>
           in (c3, Inr (length (m_subscribers c3) - 1))))"

definition Characteristic_Unsubscribe ::
  "platform_call \<Rightarrow> nat \<Rightarrow> 'w WindowsBluetoothGattCharacteristic \<Rightarrow>
   'w WindowsBluetoothGattCharacteristic \<times> (fault + unit)" where
  "Characteristic_Unsubscribe env lid c =
     (case vector_at (m_subscribers c) lid of
        None \<Rightarrow> (c, Inl OutOfRange)
      | Some token \<Rightarrow>
          (let c1 = c\<lparr>ValueChanged := revoke token (ValueChanged c)\<rparr> in
           case vector_erase (m_subscribers c1) lid of
             None \<Rightarrow> (c1, Inl OutOfRange)
           | Some subs \<Rightarrow>
               (let c2 = c1\<lparr>m_subscribers := subs\<rparr> in
                if m_subscribers c2 = []
                then (case write_configuration env DescriptorNone c2 of
                        (c3, r) \<Rightarrow> (c3, WINRT_CALL_END (call_message env) r))
                else (c2, Inr ()))))"

definition Characteristic_UnsubscribeAll ::
  "platform_call \<Rightarrow> 'w WindowsBluetoothGattCharacteristic \<Rightarrow>
   'w WindowsBluetoothGattCharacteristic \<times> (fault + unit)" where
  "Characteristic_UnsubscribeAll env c =
     (let c1 = fold (\<lambda>subscriber c'. c'\<lparr>ValueChanged := revoke subscriber (ValueChanged c')\<rparr>)
                 (m_subscribers c) c;
          c2 = c1\<lparr>m_subscribers := []\<rparr>
      in case write_configuration env DescriptorNone c2 of
           (c3, r) \<Rightarrow> (c3, WINRT_CALL_END (call_message env) r))"

text \<open>
  A notification from the device: it sends one only while its descriptor holds
  \<open>Notify\<close>, and the platform then calls every handler of \<open>ValueChanged\<close>, each of which
  copies the value into a vector and calls its listener.
\<close>

definition notification ::
  "byte list \<Rightarrow> 'w WindowsBluetoothGattCharacteristic \<Rightarrow> 'w \<Rightarrow> 'w" where
  "notification data c w =
     (if descriptor c = Notify then fold (\<lambda>(t, f). f data) (ValueChanged c) w else w)"

text \<open>
  The first half of the registry's invariant: while a listener is subscribed, the
  device's descriptor holds \<open>Notify\<close>.
\<close>

definition registry_invariant :: "'w WindowsBluetoothGattCharacteristic \<Rightarrow> bool" where
  "registry_invariant c = (m_subscribers c \<noteq> [] \<longrightarrow> descriptor c = Notify)"

section \<open>The end of \<open>Connect\<close> (src/main.cpp)\<close>

record 'w Bridge =
  port :: "'w COMPort"
  characteristic :: "'w WindowsBluetoothGattCharacteristic"
  connection_open :: bool

text \<open>
  \<open>WindowsBluetoothConnection::Close\<close> clears the services and closes the device,
  inside \<open>WINRT_CALL_BEGIN\<close> and \<open>WINRT_CALL_END\<close>; \<open>failure\<close> is the HRESULT the platform
  fails with, if it does.
\<close>

definition Connection_Close ::
  "32 word option \<Rightarrow> (32 word \<Rightarrow> string) \<Rightarrow> 'w Bridge \<Rightarrow> 'w Bridge \<times> (fault + unit)" where
  "Connection_Close failure message b =
     (case failure of
        None \<Rightarrow> (b\<lparr>connection_open := False\<rparr>, Inr ())
      | Some code \<Rightarrow> (b, WINRT_CALL_END message (Inl (hresult_error code))))"

text \<open>
  The four statements after the wait for SIGINT, in the source's order, and the
  \<open>return 0\<close> behind them. There is no \<open>try\<close> around any of them: the first exception
  leaves \<open>Connect\<close>. The result is \<open>None\<close> when \<open>port.UnsubscribeAll()\<close> does not return.
  Leaving \<open>Connect\<close> destroys \<open>port\<close>, whose destructor repeats the first two
  statements; on a port they have already been applied to they change nothing. The
  connection has no destructor of its own that would call \<open>Close\<close>.
\<close>

definition Connect_teardown ::
  "ReadFile_result list \<Rightarrow> platform_call \<Rightarrow> 32 word option \<Rightarrow> 'w Bridge \<Rightarrow> 'w \<Rightarrow>
   (('w Bridge \<times> 'w) \<times> (fault + int)) option" where
  "Connect_teardown rs env close_failure b w =
     (case COMPort_UnsubscribeAll rs (port b) w of
        None \<Rightarrow> None
      | Some (p1, w1) \<Rightarrow>
          (let b1 = b\<lparr>port := COMPort_Close p1\<rparr> in
           case Characteristic_UnsubscribeAll env (characteristic b1) of
             (c1, Inl e) \<Rightarrow> Some ((b1\<lparr>characteristic := c1\<rparr>, w1), Inl e)
           | (c1, Inr u) \<Rightarrow>
               (case Connection_Close close_failure (call_message env)
                       (b1\<lparr>characteristic := c1\<rparr>) of
                  (b2, Inl e) \<Rightarrow> Some ((b2, w1), Inl e)
                | (b2, Inr u') \<Rightarrow> Some ((b2, w1), Inr 0))))"


section \<open>Concrete inputs\<close>

text \<open>
  A descriptor write that has completed with \<open>Success\<close> by the time it is waited for,
  one that has failed with \<open>E_ACCESSDENIED\<close>, and one that has completed with
  \<open>Unreachable\<close>.
\<close>

definition call_ok :: platform_call where
  "call_ok =
     \<lparr>call_task = \<lparr>Status = (\<lambda>t. Completed), GetResults = Success, ErrorCode = 0\<rparr>,
      call_wake = (\<lambda>t. 0), call_now = 0, call_message = (\<lambda>code. ''Access is denied.'')\<rparr>"

definition call_failing :: platform_call where
  "call_failing =
     \<lparr>call_task = \<lparr>Status = (\<lambda>t. Error), GetResults = Success, ErrorCode = 0x80070005\<rparr>,
      call_wake = (\<lambda>t. 0), call_now = 0, call_message = (\<lambda>code. ''Access is denied.'')\<rparr>"

definition call_unreachable :: platform_call where
  "call_unreachable =
     \<lparr>call_task = \<lparr>Status = (\<lambda>t. Completed), GetResults = Unreachable, ErrorCode = 0\<rparr>,
      call_wake = (\<lambda>t. 0), call_now = 0, call_message = (\<lambda>code. ''Access is denied.'')\<rparr>"

text \<open>
  A serial port on handle 1, refreshing every 100 ms, whose listeners are the
  recorders with the given names.
\<close>

definition port_with :: "string list \<Rightarrow> thread \<Rightarrow> bool \<Rightarrow> (string \<times> byte list) list COMPort" where
  "port_with names t exiting =
     \<lparr>m_handle = Some 1, m_subscriberThread = t, m_refreshRate = 100,
      m_exiting = exiting, m_callbacks = map recorder names\<rparr>"

text \<open>
  A characteristic with a timeout of 5, the given tokens in \<open>m_subscribers\<close>, and the
  recorders with the given names as handlers under the given tokens.
\<close>

definition chr_with ::
  "nat list \<Rightarrow> (nat \<times> string) list \<Rightarrow> nat \<Rightarrow> DescriptorValue \<Rightarrow> DescriptorValue list \<Rightarrow>
   (string \<times> byte list) list WindowsBluetoothGattCharacteristic" where
  "chr_with subs handlers next d writes =
     \<lparr>m_timeout = 5, m_subscribers = subs,
      ValueChanged = map (\<lambda>(t, n). (t, recorder n)) handlers,
      next_token = next, descriptor = d, descriptor_writes = writes\<rparr>"

text \<open>A bridge of a port, a characteristic and a connection that is open or not.\<close>

definition bridge_with ::
  "(string \<times> byte list) list COMPort \<Rightarrow>
   (string \<times> byte list) list WindowsBluetoothGattCharacteristic \<Rightarrow> bool \<Rightarrow>
   (string \<times> byte list) list Bridge" where
  "bridge_with p c opened = \<lparr>port = p, characteristic = c, connection_open = opened\<rparr>"

declare wait_loop.simps [simp del]

declare string_of_nat.simps [simp del]

section \<open>Delivery on the serial port\<close>

lemma notify_all_simps [simp]:
  "notify_all NoThread = NoThread" "notify_all Polling = Polling"
  "notify_all Waiting = Woken" "notify_all Woken = Woken" "notify_all Finished = Finished"
  by (simp_all add: notify_all_def)

lemma Subscribe_callbacks:
  "m_callbacks (fst (COMPort_Subscribe l s)) = m_callbacks s @ [l]"
  by (simp add: COMPort_Subscribe_def Let_def)

lemma Subscribe_exiting:
  "m_exiting (fst (COMPort_Subscribe l s)) = m_exiting s"
  by (simp add: COMPort_Subscribe_def Let_def)

lemma Subscribe_thread:
  "m_subscriberThread (fst (COMPort_Subscribe l s)) =
     (case m_subscriberThread s of NoThread \<Rightarrow> Polling | Waiting \<Rightarrow> Woken | t \<Rightarrow> t)"
  by (cases "m_subscriberThread s") (simp_all add: COMPort_Subscribe_def Let_def joinable_def)

lemma subscribe_all_callbacks:
  "m_callbacks (subscribe_all ls s) = m_callbacks s @ ls"
  unfolding subscribe_all_def
  by (induction ls arbitrary: s) (simp_all add: Subscribe_callbacks)

lemma subscribe_all_exiting:
  "m_exiting (subscribe_all ls s) = m_exiting s"
  unfolding subscribe_all_def
  by (induction ls arbitrary: s) (simp_all add: Subscribe_exiting)

lemma subscribe_all_Polling:
  "m_subscriberThread s = Polling \<Longrightarrow> m_subscriberThread (subscribe_all ls s) = Polling"
  unfolding subscribe_all_def
  by (induction ls arbitrary: s) (simp_all add: Subscribe_thread)

lemma subscribe_all_NoThread:
  "m_subscriberThread s = NoThread \<Longrightarrow> ls \<noteq> [] \<Longrightarrow>
   m_subscriberThread (subscribe_all ls s) = Polling"
proof (cases ls)
  case Nil
  assume "ls \<noteq> []"
  with Nil show ?thesis by simp
next
  case (Cons l ls')
  assume "m_subscriberThread s = NoThread"
  then have "m_subscriberThread (fst (COMPort_Subscribe l s)) = Polling"
    by (simp add: Subscribe_thread)
  then have "m_subscriberThread (subscribe_all ls' (fst (COMPort_Subscribe l s))) = Polling"
    by (rule subscribe_all_Polling)
  with Cons show ?thesis by (simp add: subscribe_all_def)
qed

lemma poll_iteration_deliver:
  assumes "m_subscriberThread s = Polling" and "\<not> m_exiting s"
    and "m_callbacks s \<noteq> []" and "bs \<noteq> []"
  shows "poll_iteration (ReadFile_ok bs) s w =
           (s, fold (\<lambda>callback. callback (take 128 bs)) (m_callbacks s) w, Deliver (take 128 bs))"
  using assms by (simp add: poll_iteration_def COMPort_Read_def Let_def)

lemma fold_recorder:
  "fold (\<lambda>callback. callback data) (map recorder names) log = log @ map (\<lambda>n. (n, data)) names"
  by (induction names arbitrary: log) (simp_all add: recorder_def)

text \<open>
  C1. The port has a running poll thread and is not exiting (or is new, with no thread
  and no listener yet); the recording listeners \<open>old\<close> are registered, and the
  recording listeners \<open>new\<close> are then subscribed one after the other, so that at least
  one listener is registered. When an iteration of the poll loop reads a non-empty
  chunk (the first 128 bytes of what the port holds), the log gains exactly one entry
  per registered listener, each with that same chunk, in the order of registration,
  and the port itself is unchanged.
\<close>

theorem poll_delivers_chunk_to_every_listener:
  assumes thread: "m_subscriberThread s0 = Polling \<or>
                   (m_subscriberThread s0 = NoThread \<and> old = [])"
    and running: "\<not> m_exiting s0"
    and registered: "m_callbacks s0 = map recorder old"
    and some: "old @ new \<noteq> []"
    and chunk: "bs \<noteq> []"
  shows "poll_iteration (ReadFile_ok bs) (subscribe_all (map recorder new) s0) log =
           (subscribe_all (map recorder new) s0,
            log @ map (\<lambda>n. (n, take 128 bs)) (old @ new),
            Deliver (take 128 bs))"
proof -
  let ?s = "subscribe_all (map recorder new) s0"
  have cbs: "m_callbacks ?s = map recorder (old @ new)"
    by (simp add: subscribe_all_callbacks registered)
  have t: "m_subscriberThread ?s = Polling"
    using thread some by (auto simp: subscribe_all_Polling subscribe_all_NoThread)
  have e: "\<not> m_exiting ?s"
    using running by (simp add: subscribe_all_exiting)
  have ne: "m_callbacks ?s \<noteq> []"
    using some cbs by simp
  show ?thesis
    unfolding poll_iteration_deliver [OF t e ne chunk] cbs fold_recorder ..
qed

theorem poll_delivers_chunk_to_every_listener_witness:
  "poll_iteration (ReadFile_ok [1, 2, 3])
     (subscribe_all (map recorder [''A'', ''B'', ''C'']) (COMPort_new 1)) [] =
     (subscribe_all (map recorder [''A'', ''B'', ''C'']) (COMPort_new 1),
      [(''A'', [1, 2, 3]), (''B'', [1, 2, 3]), (''C'', [1, 2, 3])],
      Deliver [1, 2, 3])"
  using poll_delivers_chunk_to_every_listener
    [of "COMPort_new 1" "[]" "[''A'', ''B'', ''C'']" "[1, 2, 3]" "[]"]
  by (simp add: COMPort_new_def)

section \<open>Ids that are not positions of the sequence\<close>


lemma WaitWithTimeout_cases:
  "(\<exists>x. WaitWithTimeout task wake now timeout = Inr x) \<or>
   (\<exists>code. WaitWithTimeout task wake now timeout = Inl (hresult_error code)) \<or>
   (\<exists>m. WaitWithTimeout task wake now timeout = Inl (BluetoothException m))"
  by (simp add: WaitWithTimeout_def Let_def split: AsyncStatus.split)

lemma WINRT_CALL_END_not_OutOfRange:
  "r \<noteq> Inl OutOfRange \<Longrightarrow> WINRT_CALL_END message r \<noteq> Inl OutOfRange"
  by (auto simp: WINRT_CALL_END_def split: sum.splits fault.splits)

lemma write_configuration_not_OutOfRange:
  "snd (write_configuration env v c) \<noteq> Inl OutOfRange"
  using WaitWithTimeout_cases [of "call_task env" "call_wake env" "call_now env" "m_timeout c"]
  by (auto simp: write_configuration_def WriteClientCharacteristicConfigurationDescriptor_def
      Let_def split: sum.splits prod.splits)

text \<open>
  C10. Neither \<open>Unsubscribe\<close> checks its id. On the serial port the call ends in the
  access past the end of \<open>m_callbacks\<close> exactly when the id is at least the number of
  listeners; on the characteristic it ends in the access past the end of
  \<open>m_subscribers\<close> exactly when the id is at least the number of subscribers. No
  exception is thrown for such an id and no id below the count is refused.
\<close>

theorem Unsubscribe_past_the_end:
  "(COMPort_Unsubscribe lid s = Inl OutOfRange) = (length (m_callbacks s) \<le> lid) \<and>
   (snd (Characteristic_Unsubscribe env lid c) = Inl OutOfRange) =
     (length (m_subscribers c) \<le> lid)"
proof
  show "(COMPort_Unsubscribe lid s = Inl OutOfRange) = (length (m_callbacks s) \<le> lid)"
    by (simp add: COMPort_Unsubscribe_def vector_erase_def)
next
  show "(snd (Characteristic_Unsubscribe env lid c) = Inl OutOfRange) =
          (length (m_subscribers c) \<le> lid)"
  proof (cases "lid < length (m_subscribers c)")
    case False
    then show ?thesis by (simp add: Characteristic_Unsubscribe_def vector_at_def)
  next
    case True
    have "WINRT_CALL_END (call_message env) r \<noteq> Inl OutOfRange"
      if "write_configuration env v c' = (c'', r)" for v c' c'' r
      using that write_configuration_not_OutOfRange [of env v c']
      by (simp add: WINRT_CALL_END_not_OutOfRange)
    with True show ?thesis
      by (auto simp: Characteristic_Unsubscribe_def vector_at_def vector_erase_def Let_def
          split: prod.splits)
  qed
qed

section \<open>Ids after a removal, and subscribing after the thread has ended\<close>

text \<open>
  C2. The ids \<open>Subscribe\<close> returns are positions. A, B and C subscribe to a new port and
  get 0, 1 and 2. After \<open>Unsubscribe(1)\<close> has removed B, \<open>Unsubscribe(2)\<close> with C's id
  erases past the end of the two listeners left. And after \<open>Unsubscribe(0)\<close> has
  removed A, \<open>Unsubscribe(1)\<close> with B's id removes C: the next chunk goes to B alone.
  The same four runs on a characteristic end the same way, with \<open>m_subscribers[2]\<close>
  read past the end, and with C's handler revoked under B's id.
\<close>

theorem Unsubscribe_removes_a_later_listener:
  "COMPort_Subscribe (recorder ''A'') (port_with [] NoThread False) =
     (port_with [''A''] Polling False, 0) \<and>
   COMPort_Subscribe (recorder ''B'') (port_with [''A''] Polling False) =
     (port_with [''A'', ''B''] Polling False, 1) \<and>
   COMPort_Subscribe (recorder ''C'') (port_with [''A'', ''B''] Polling False) =
     (port_with [''A'', ''B'', ''C''] Polling False, 2) \<and>
   COMPort_Unsubscribe 1 (port_with [''A'', ''B'', ''C''] Polling False) =
     Inr (port_with [''A'', ''C''] Polling False) \<and>
   COMPort_Unsubscribe 2 (port_with [''A'', ''C''] Polling False) = Inl OutOfRange \<and>
   COMPort_Unsubscribe 0 (port_with [''A'', ''B'', ''C''] Polling False) =
     Inr (port_with [''B'', ''C''] Polling False) \<and>
   COMPort_Unsubscribe 1 (port_with [''B'', ''C''] Polling False) =
     Inr (port_with [''B''] Polling False) \<and>
   poll_iteration (ReadFile_ok [7]) (port_with [''B''] Polling False) [] =
     (port_with [''B''] Polling False, [(''B'', [7])], Deliver [7]) \<and>
   Characteristic_Subscribe call_ok (recorder ''A'') (chr_with [] [] 0 DescriptorNone []) =
     (chr_with [0] [(0, ''A'')] 1 Notify [Notify], Inr 0) \<and>
   Characteristic_Subscribe call_ok (recorder ''B'') (chr_with [0] [(0, ''A'')] 1 Notify [Notify]) =
     (chr_with [0, 1] [(0, ''A''), (1, ''B'')] 2 Notify [Notify], Inr 1) \<and>
   Characteristic_Subscribe call_ok (recorder ''C'')
       (chr_with [0, 1] [(0, ''A''), (1, ''B'')] 2 Notify [Notify]) =
     (chr_with [0, 1, 2] [(0, ''A''), (1, ''B''), (2, ''C'')] 3 Notify [Notify], Inr 2) \<and>
   Characteristic_Unsubscribe call_ok 1
       (chr_with [0, 1, 2] [(0, ''A''), (1, ''B''), (2, ''C'')] 3 Notify [Notify]) =
     (chr_with [0, 2] [(0, ''A''), (2, ''C'')] 3 Notify [Notify], Inr ()) \<and>
   Characteristic_Unsubscribe call_ok 2
       (chr_with [0, 2] [(0, ''A''), (2, ''C'')] 3 Notify [Notify]) =
     (chr_with [0, 2] [(0, ''A''), (2, ''C'')] 3 Notify [Notify], Inl OutOfRange) \<and>
   Characteristic_Unsubscribe call_ok 0
       (chr_with [0, 1, 2] [(0, ''A''), (1, ''B''), (2, ''C'')] 3 Notify [Notify]) =
     (chr_with [1, 2] [(1, ''B''), (2, ''C'')] 3 Notify [Notify], Inr ()) \<and>
   Characteristic_Unsubscribe call_ok 1
       (chr_with [1, 2] [(1, ''B''), (2, ''C'')] 3 Notify [Notify]) =
     (chr_with [1] [(1, ''B'')] 3 Notify [Notify], Inr ()) \<and>
   notification [7] (chr_with [1] [(1, ''B'')] 3 Notify [Notify]) [] = [(''B'', [7])]"
  by (simp add: COMPort_Subscribe_def COMPort_Unsubscribe_def vector_erase_def port_with_def
      poll_iteration_def COMPort_Read_def recorder_def joinable_def Let_def
      Characteristic_Subscribe_def Characteristic_Unsubscribe_def vector_at_def chr_with_def
      revoke_def write_configuration_def WriteClientCharacteristicConfigurationDescriptor_def
      WaitWithTimeout_def call_ok_def notification_def)

text \<open>
  C3. A has subscribed and the poll thread runs. First run: \<open>UnsubscribeAll\<close> returns
  (the thread saw \<open>m_exiting\<close> and ended before the caller took the mutex) and leaves
  \<open>m_exiting\<close> set; the \<open>Subscribe\<close> of B that follows starts a thread, which returns in
  its first iteration, and the chunks the port then holds reach nobody. Second run:
  \<open>Unsubscribe(0)\<close> removes A and the thread goes to wait; the \<open>Subscribe\<close> of B wakes
  it and starts no thread, the old one being joinable still; once awake it breaks out
  of its loop, and again no chunk reaches B.
\<close>

theorem Subscribe_after_the_thread_ended:
  "COMPort_UnsubscribeAll [ReadFile_ok []] (port_with [''A''] Polling False) [] =
     Some (port_with [] NoThread True, []) \<and>
   COMPort_Subscribe (recorder ''B'') (port_with [] NoThread True) =
     (port_with [''B''] Polling True, 0) \<and>
   poll_iterations [ReadFile_ok [3], ReadFile_ok [4]] (port_with [''B''] Polling True) [] =
     (port_with [''B''] Finished True, []) \<and>
   COMPort_Unsubscribe 0 (port_with [''A''] Polling False) = Inr (port_with [] Polling False) \<and>
   poll_iteration (ReadFile_ok [2]) (port_with [] Polling False) [] =
     (port_with [] Waiting False, [], CondWait) \<and>
   COMPort_Subscribe (recorder ''B'') (port_with [] Waiting False) =
     (port_with [''B''] Woken False, 0) \<and>
   poll_iterations [ReadFile_ok [3], ReadFile_ok [4]] (port_with [''B''] Woken False) [] =
     (port_with [''B''] Finished False, [])"
  by (simp add: COMPort_Subscribe_def COMPort_UnsubscribeAll_def COMPort_Unsubscribe_def
      vector_erase_def port_with_def poll_iteration_def COMPort_Read_def joinable_def Let_def)

section \<open>A read that fails\<close>

text \<open>
  C8, as the code has it. An iteration whose \<open>ReadFile\<close> failed does what an iteration
  that read nothing does, whatever the error and the state of the port. With the
  thread polling, the port not exiting and a listener registered, that is: no
  listener is called, the port is unchanged, and the thread sleeps \<open>m_refreshRate\<close>
  and tries again; and the iteration does so exactly when \<open>Read\<close> returned no byte.
\<close>

theorem failed_read_is_an_empty_read:
  "poll_iteration (ReadFile_failed err) s w = poll_iteration (ReadFile_ok []) s w \<and>
   (m_subscriberThread s = Polling \<and> \<not> m_exiting s \<and> m_callbacks s \<noteq> [] \<longrightarrow>
      poll_iteration (ReadFile_failed err) s w = (s, w, Sleep (m_refreshRate s)) \<and>
      (poll_iteration r s w = (s, w, Sleep (m_refreshRate s))) = (COMPort_Read r 128 = []))"
  by (simp add: poll_iteration_def COMPort_Read_def Let_def split: thread.split)

theorem failed_read_is_an_empty_read_witness:
  "poll_iteration (ReadFile_failed 1167) (port_with [''A''] Polling False) [] =
     (port_with [''A''] Polling False, [], Sleep 100) \<and>
   poll_iteration (ReadFile_ok [1]) (port_with [''A''] Polling False) [] \<noteq>
     (port_with [''A''] Polling False, [], Sleep 100)"
  using failed_read_is_an_empty_read
    [of 1167 "port_with [''A''] Polling False" "[]" "ReadFile_ok [1]"]
  by (simp add: port_with_def COMPort_Read_def poll_iteration_def recorder_def)

text \<open>
  C8 as claimed fails: \<open>ReadFile\<close> failing with error 1167 (the device is not connected)
  and \<open>ReadFile\<close> reading nothing give the same iteration, a sleep of 100 ms with
  nothing reported to anyone.
\<close>

theorem failed_read_not_escalated:
  "poll_iteration (ReadFile_failed 1167) (port_with [''A''] Polling False) [] =
     (port_with [''A''] Polling False, [], Sleep 100) \<and>
   poll_iteration (ReadFile_ok []) (port_with [''A''] Polling False) [] =
     (port_with [''A''] Polling False, [], Sleep 100)"
  by (simp add: poll_iteration_def COMPort_Read_def port_with_def)

section \<open>The four outcomes of the timeout-bounded wait\<close>




text \<open>
  Three runs: an operation that completes at tick 50, waited for from tick 0 with a
  timeout of 1000 and a wake-up every 10 ticks, returns its result at tick 50; one
  that never completes, with a timeout of 200, times out at tick 200; one that has
  failed with \<open>E_ACCESSDENIED\<close> gives the error with that code and the platform's text.
\<close>

lemma wait_completes_at_50:
  "wait_loop (\<lambda>t. if t < 50 then Started else Completed) (\<lambda>t. 9) 1000 0 = 50"
  by code_simp

lemma wait_never_completes:
  "wait_loop (\<lambda>t. Started) (\<lambda>t. 49) 200 0 = 200"
  by code_simp

lemma WaitWithTimeout_examples:
  "WaitWithTimeout
     \<lparr>Status = (\<lambda>t. if t < 50 then Started else Completed), GetResults = Success,
      ErrorCode = 0\<rparr> (\<lambda>t. 9) 0 1000 = Inr Success \<and>
   WaitWithTimeout \<lparr>Status = (\<lambda>t. Started), GetResults = Success, ErrorCode = 0\<rparr>
     (\<lambda>t. 49) 0 200 = Inl (BluetoothException ''Operation timed out'') \<and>
   WINRT_CALL_END (\<lambda>code. ''Access is denied.'')
     (WaitWithTimeout \<lparr>Status = (\<lambda>t. Error), GetResults = Success, ErrorCode = 0x80070005\<rparr>
        (\<lambda>t. 9) 0 1000) =
     Inl (BluetoothException
           ''Bluetooth error. Code: -2147024891. Message: Access is denied.'')"
  by (simp add: WaitWithTimeout_def Let_def wait_completes_at_50 WINRT_CALL_END_def
      to_string_def string_of_nat.simps digit_char_def)

section \<open>Subscribing to the characteristic when the enabling write fails\<close>

lemma write_configuration_ok:
  "write_succeeds env c \<Longrightarrow>
   write_configuration env v c =
     (c\<lparr>descriptor_writes := descriptor_writes c @ [v], descriptor := v\<rparr>, Inr ())"
  by (simp add: write_succeeds_def write_configuration_def
      WriteClientCharacteristicConfigurationDescriptor_def Let_def)

lemma write_configuration_failed:
  assumes "\<not> write_succeeds env c"
  shows "\<exists>e. write_configuration env v c =
           (c\<lparr>descriptor_writes := descriptor_writes c @ [v]\<rparr>, Inl e) \<and>
         ((\<exists>code. e = hresult_error code) \<or> (\<exists>m. e = BluetoothException m))"
  using assms
    WaitWithTimeout_cases [of "call_task env" "call_wake env" "call_now env" "m_timeout c"]
  by (auto simp: write_succeeds_def write_configuration_def
      WriteClientCharacteristicConfigurationDescriptor_def Let_def)

lemma WINRT_CALL_END_thrown:
  "(\<exists>code. e = hresult_error code) \<or> (\<exists>m. e = BluetoothException m) \<Longrightarrow>
   \<exists>m. WINRT_CALL_END message (Inl e) = Inl (BluetoothException m)"
  by (auto simp: WINRT_CALL_END_def)

lemma call_failing_fails: "\<not> write_succeeds call_failing c"
  by (simp add: write_succeeds_def call_failing_def WaitWithTimeout_def Let_def)

lemma call_ok_succeeds: "write_succeeds call_ok c"
  by (simp add: write_succeeds_def call_ok_def WaitWithTimeout_def Let_def)

text \<open>
  C5. When nobody is subscribed and the write of \<open>Notify\<close> to the descriptor does not
  end in \<open>Success\<close> (the operation failed, was cancelled, timed out, or completed with
  another status), \<open>Subscribe\<close> throws a \<open>BluetoothException\<close> to its caller and leaves
  the object as it was, but for the write it issued: no token is stored, no handler
  is added, and the descriptor is unchanged.
\<close>

theorem Characteristic_Subscribe_atomic:
  assumes "m_subscribers c = []" and "\<not> write_succeeds env c"
  shows "\<exists>m. Characteristic_Subscribe env listener c =
           (c\<lparr>descriptor_writes := descriptor_writes c @ [Notify]\<rparr>,
            Inl (BluetoothException m))"
proof -
  from write_configuration_failed [OF assms(2), of Notify]
  obtain e where w: "write_configuration env Notify c =
      (c\<lparr>descriptor_writes := descriptor_writes c @ [Notify]\<rparr>, Inl e)"
    and e: "(\<exists>code. e = hresult_error code) \<or> (\<exists>m. e = BluetoothException m)"
    by blast
  from WINRT_CALL_END_thrown [OF e]
  obtain m where
    "WINRT_CALL_END (call_message env) (Inl e) = (Inl (BluetoothException m) :: fault + nat)"
    by blast
  with assms(1) w show ?thesis
    by (simp add: Characteristic_Subscribe_def)
qed

theorem Characteristic_Subscribe_atomic_witness:
  "m_subscribers (chr_with [] [] 0 DescriptorNone []) = [] \<and>
   \<not> write_succeeds call_failing (chr_with [] [] 0 DescriptorNone []) \<and>
   (\<exists>m. Characteristic_Subscribe call_failing (recorder ''A'')
           (chr_with [] [] 0 DescriptorNone []) =
         (chr_with [] [] 0 DescriptorNone [Notify], Inl (BluetoothException m)))"
  using Characteristic_Subscribe_atomic
    [of "chr_with [] [] 0 DescriptorNone []" call_failing "recorder ''A''"]
  by (simp add: call_failing_fails) (simp add: chr_with_def)

section \<open>The characteristic's registry and its descriptor\<close>

lemma fold_revoke_record:
  "fold (\<lambda>subscriber c'. c'\<lparr>ValueChanged := revoke subscriber (ValueChanged c')\<rparr>) subs c =
   c\<lparr>ValueChanged := fold revoke subs (ValueChanged c)\<rparr>"
  by (induction subs arbitrary: c) simp_all

lemma write_succeeds_cong [simp]:
  "write_succeeds env (c\<lparr>m_subscribers := subs\<rparr>) = write_succeeds env c"
  "write_succeeds env (c\<lparr>ValueChanged := hs\<rparr>) = write_succeeds env c"
  "write_succeeds env (c\<lparr>descriptor_writes := ws\<rparr>) = write_succeeds env c"
  "write_succeeds env (c\<lparr>descriptor := d\<rparr>) = write_succeeds env c"
  "write_succeeds env (c\<lparr>next_token := n\<rparr>) = write_succeeds env c"
  by (simp_all add: write_succeeds_def)

lemma UnsubscribeAll_ok:
  assumes "write_succeeds env c"
  shows "Characteristic_UnsubscribeAll env c =
           (c\<lparr>ValueChanged := fold revoke (m_subscribers c) (ValueChanged c),
               m_subscribers := [],
               descriptor_writes := descriptor_writes c @ [DescriptorNone],
               descriptor := DescriptorNone\<rparr>, Inr ())"
  using assms
  by (simp add: Characteristic_UnsubscribeAll_def fold_revoke_record Let_def
      write_configuration_ok WINRT_CALL_END_def)

lemma UnsubscribeAll_failed:
  assumes "\<not> write_succeeds env c"
  shows "\<exists>m. Characteristic_UnsubscribeAll env c =
           (c\<lparr>ValueChanged := fold revoke (m_subscribers c) (ValueChanged c),
               m_subscribers := [],
               descriptor_writes := descriptor_writes c @ [DescriptorNone]\<rparr>,
            Inl (BluetoothException m))"
proof -
  let ?c2 = "c\<lparr>ValueChanged := fold revoke (m_subscribers c) (ValueChanged c),
                m_subscribers := []\<rparr>"
  from assms have "\<not> write_succeeds env ?c2" by simp
  from write_configuration_failed [OF this, of DescriptorNone]
  obtain e where w: "write_configuration env DescriptorNone ?c2 =
      (?c2\<lparr>descriptor_writes := descriptor_writes ?c2 @ [DescriptorNone]\<rparr>, Inl e)"
    and e: "(\<exists>code. e = hresult_error code) \<or> (\<exists>m. e = BluetoothException m)"
    by blast
  from WINRT_CALL_END_thrown [OF e]
  obtain m where
    "WINRT_CALL_END (call_message env) (Inl e) = (Inl (BluetoothException m) :: fault + unit)"
    by blast
  with w show ?thesis
    by (simp add: Characteristic_UnsubscribeAll_def fold_revoke_record Let_def)
qed

lemma Unsubscribe_valid:
  assumes "lid < length (m_subscribers c)"
  shows "Characteristic_Unsubscribe env lid c =
     (let c2 = c\<lparr>ValueChanged := revoke (m_subscribers c ! lid) (ValueChanged c),
                  m_subscribers := take lid (m_subscribers c) @ drop (Suc lid) (m_subscribers c)\<rparr>
      in if m_subscribers c2 = []
         then (case write_configuration env DescriptorNone c2 of
                 (c3, r) \<Rightarrow> (c3, WINRT_CALL_END (call_message env) r))
         else (c2, Inr ()))"
  using assms
  by (simp add: Characteristic_Unsubscribe_def vector_at_def vector_erase_def Let_def)

lemma Unsubscribe_last_ok:
  assumes "lid < length (m_subscribers c)" and "length (m_subscribers c) = 1"
    and "write_succeeds env c"
  shows "Characteristic_Unsubscribe env lid c =
     (c\<lparr>ValueChanged := revoke (m_subscribers c ! lid) (ValueChanged c),
         m_subscribers := [],
         descriptor_writes := descriptor_writes c @ [DescriptorNone],
         descriptor := DescriptorNone\<rparr>, Inr ())"
proof -
  from assms(1,2) have "lid = 0" by simp
  with assms show ?thesis
    by (simp add: Unsubscribe_valid Let_def write_configuration_ok WINRT_CALL_END_def)
qed

lemma Unsubscribe_last_failed:
  assumes "lid < length (m_subscribers c)" and "length (m_subscribers c) = 1"
    and "\<not> write_succeeds env c"
  shows "\<exists>m. Characteristic_Unsubscribe env lid c =
     (c\<lparr>ValueChanged := revoke (m_subscribers c ! lid) (ValueChanged c),
         m_subscribers := [],
         descriptor_writes := descriptor_writes c @ [DescriptorNone]\<rparr>,
      Inl (BluetoothException m))"
proof -
  let ?c2 = "c\<lparr>ValueChanged := revoke (m_subscribers c ! lid) (ValueChanged c),
                m_subscribers := []\<rparr>"
  from assms(1,2) have "lid = 0" by simp
  from assms(3) have "\<not> write_succeeds env ?c2" by simp
  from write_configuration_failed [OF this, of DescriptorNone]
  obtain e where w: "write_configuration env DescriptorNone ?c2 =
      (?c2\<lparr>descriptor_writes := descriptor_writes ?c2 @ [DescriptorNone]\<rparr>, Inl e)"
    and e: "(\<exists>code. e = hresult_error code) \<or> (\<exists>m. e = BluetoothException m)"
    by blast
  from WINRT_CALL_END_thrown [OF e]
  obtain m where
    "WINRT_CALL_END (call_message env) (Inl e) = (Inl (BluetoothException m) :: fault + unit)"
    by blast
  with w assms(1,2) \<open>lid = 0\<close> show ?thesis
    by (simp add: Unsubscribe_valid Let_def)
qed

lemma Unsubscribe_not_last:
  assumes "lid < length (m_subscribers c)" and "length (m_subscribers c) \<noteq> 1"
  shows "Characteristic_Unsubscribe env lid c =
     (c\<lparr>ValueChanged := revoke (m_subscribers c ! lid) (ValueChanged c),
         m_subscribers := take lid (m_subscribers c) @ drop (Suc lid) (m_subscribers c)\<rparr>,
      Inr ())"
proof -
  from assms have "1 < length (m_subscribers c)" by (cases "m_subscribers c") auto
  with assms(1) have "take lid (m_subscribers c) @ drop (Suc lid) (m_subscribers c) \<noteq> []"
    by (cases "m_subscribers c") (auto simp: take_Cons' drop_Cons')
  with assms(1) show ?thesis
    by (auto simp: Unsubscribe_valid Let_def)
qed

lemma Subscribe_first_failed:
  assumes "m_subscribers c = []" and "\<not> write_succeeds env c"
  shows "fst (Characteristic_Subscribe env listener c) =
           c\<lparr>descriptor_writes := descriptor_writes c @ [Notify]\<rparr>"
proof -
  from write_configuration_failed [OF assms(2), of Notify]
  obtain e where "write_configuration env Notify c =
      (c\<lparr>descriptor_writes := descriptor_writes c @ [Notify]\<rparr>, Inl e)"
    by blast
  with assms(1) show ?thesis
    by (simp add: Characteristic_Subscribe_def)
qed

lemma Subscribe_first_ok:
  assumes "m_subscribers c = []" and "write_succeeds env c"
  shows "Characteristic_Subscribe env listener c =
     (c\<lparr>descriptor_writes := descriptor_writes c @ [Notify], descriptor := Notify,
         ValueChanged := ValueChanged c @ [(next_token c, listener)],
         next_token := Suc (next_token c),
         m_subscribers := [next_token c]\<rparr>, Inr 0)"
  using assms by (simp add: Characteristic_Subscribe_def write_configuration_ok Let_def)

lemma Subscribe_further:
  assumes "m_subscribers c \<noteq> []"
  shows "Characteristic_Subscribe env listener c =
     (c\<lparr>ValueChanged := ValueChanged c @ [(next_token c, listener)],
         next_token := Suc (next_token c),
         m_subscribers := m_subscribers c @ [next_token c]\<rparr>, Inr (length (m_subscribers c)))"
  using assms by (simp add: Characteristic_Subscribe_def Let_def)

lemma Subscribe_invariant:
  assumes "registry_invariant c"
  shows "registry_invariant (fst (Characteristic_Subscribe env listener c))"
proof (cases "m_subscribers c = []")
  case False
  with assms show ?thesis
    by (simp add: Subscribe_further registry_invariant_def)
next
  case True
  show ?thesis
  proof (cases "write_succeeds env c")
    case True
    with \<open>m_subscribers c = []\<close> show ?thesis
      by (simp add: Subscribe_first_ok registry_invariant_def)
  next
    case False
    with \<open>m_subscribers c = []\<close> show ?thesis
      by (simp add: Subscribe_first_failed registry_invariant_def)
  qed
qed

lemma Unsubscribe_invariant:
  assumes "registry_invariant c"
  shows "registry_invariant (fst (Characteristic_Unsubscribe env lid c)) \<and>
         (snd (Characteristic_Unsubscribe env lid c) = Inr () \<and>
          m_subscribers (fst (Characteristic_Unsubscribe env lid c)) = [] \<longrightarrow>
            descriptor (fst (Characteristic_Unsubscribe env lid c)) = DescriptorNone)"
proof -
  consider (past) "length (m_subscribers c) \<le> lid"
    | (last_ok) "lid < length (m_subscribers c)" "length (m_subscribers c) = 1"
        "write_succeeds env c"
    | (last_failed) "lid < length (m_subscribers c)" "length (m_subscribers c) = 1"
        "\<not> write_succeeds env c"
    | (more) "lid < length (m_subscribers c)" "length (m_subscribers c) \<noteq> 1"
    by linarith
  then show ?thesis
  proof cases
    case past
    with assms show ?thesis
      by (simp add: Characteristic_Unsubscribe_def vector_at_def)
  next
    case last_ok
    then show ?thesis
      by (simp add: Unsubscribe_last_ok registry_invariant_def)
  next
    case last_failed
    from Unsubscribe_last_failed [OF this]
    obtain m where "Characteristic_Unsubscribe env lid c =
       (c\<lparr>ValueChanged := revoke (m_subscribers c ! lid) (ValueChanged c),
           m_subscribers := [],
           descriptor_writes := descriptor_writes c @ [DescriptorNone]\<rparr>,
        Inl (BluetoothException m))"
      by blast
    then show ?thesis
      by (simp add: registry_invariant_def)
  next
    case more
    then have ne: "m_subscribers c \<noteq> []" by auto
    from more have "1 < length (m_subscribers c)" by (cases "m_subscribers c") auto
    with more(1) have "take lid (m_subscribers c) @ drop (Suc lid) (m_subscribers c) \<noteq> []"
      by (cases "m_subscribers c") (auto simp: take_Cons' drop_Cons')
    with assms ne more show ?thesis
      by (simp add: Unsubscribe_not_last registry_invariant_def)
  qed
qed

lemma UnsubscribeAll_invariant:
  "registry_invariant (fst (Characteristic_UnsubscribeAll env c)) \<and>
   m_subscribers (fst (Characteristic_UnsubscribeAll env c)) = [] \<and>
   (snd (Characteristic_UnsubscribeAll env c) = Inr () \<longrightarrow>
      descriptor (fst (Characteristic_UnsubscribeAll env c)) = DescriptorNone)"
proof (cases "write_succeeds env c")
  case True
  then show ?thesis
    by (simp add: UnsubscribeAll_ok registry_invariant_def)
next
  case False
  from UnsubscribeAll_failed [OF this]
  obtain m where "Characteristic_UnsubscribeAll env c =
           (c\<lparr>ValueChanged := fold revoke (m_subscribers c) (ValueChanged c),
               m_subscribers := [],
               descriptor_writes := descriptor_writes c @ [DescriptorNone]\<rparr>,
            Inl (BluetoothException m))"
    by blast
  then show ?thesis
    by (simp add: registry_invariant_def)
qed

lemma call_failing_not_timed_out: "\<not> write_timed_out call_failing c"
  by (simp add: write_timed_out_def call_failing_def WaitWithTimeout_def Let_def)

lemma Unsubscribe_last_thrown:
  assumes inv: "registry_invariant c"
    and valid: "lid < length (m_subscribers c)" and last: "length (m_subscribers c) = 1"
    and failed: "\<not> write_succeeds env c"
  shows "m_subscribers (fst (Characteristic_Unsubscribe env lid c)) = [] \<and>
         (\<exists>m. snd (Characteristic_Unsubscribe env lid c) = Inl (BluetoothException m)) \<and>
         descriptor_writes (fst (Characteristic_Unsubscribe env lid c)) =
           descriptor_writes c @ [DescriptorNone] \<and>
         (\<not> write_timed_out env c \<longrightarrow>
            descriptor (fst (Characteristic_Unsubscribe env lid c)) = Notify)"
proof -
  from Unsubscribe_last_failed [OF valid last failed]
  obtain m where eq: "Characteristic_Unsubscribe env lid c =
     (c\<lparr>ValueChanged := revoke (m_subscribers c ! lid) (ValueChanged c),
         m_subscribers := [],
         descriptor_writes := descriptor_writes c @ [DescriptorNone]\<rparr>,
      Inl (BluetoothException m))"
    by blast
  from last have "m_subscribers c \<noteq> []" by auto
  with inv have "descriptor c = Notify" by (simp add: registry_invariant_def)
  then show ?thesis by (simp add: eq)
qed

lemma UnsubscribeAll_thrown_state:
  assumes inv: "registry_invariant c" and failed: "\<not> write_succeeds env c"
  shows "(\<exists>m. snd (Characteristic_UnsubscribeAll env c) = Inl (BluetoothException m)) \<and>
         descriptor_writes (fst (Characteristic_UnsubscribeAll env c)) =
           descriptor_writes c @ [DescriptorNone] \<and>
         (m_subscribers c \<noteq> [] \<and> \<not> write_timed_out env c \<longrightarrow>
            descriptor (fst (Characteristic_UnsubscribeAll env c)) = Notify)"
proof -
  from UnsubscribeAll_failed [OF failed]
  obtain m where eq: "Characteristic_UnsubscribeAll env c =
           (c\<lparr>ValueChanged := fold revoke (m_subscribers c) (ValueChanged c),
               m_subscribers := [],
               descriptor_writes := descriptor_writes c @ [DescriptorNone]\<rparr>,
            Inl (BluetoothException m))"
    by blast
  from inv have "m_subscribers c \<noteq> [] \<longrightarrow> descriptor c = Notify"
    by (simp add: registry_invariant_def)
  then show ?thesis by (simp add: eq)
qed

text \<open>
  C6, as the code has it. If the descriptor holds \<open>Notify\<close> whenever a listener is
  subscribed, then it still does after \<open>Subscribe\<close>, after \<open>Unsubscribe\<close> and after
  \<open>UnsubscribeAll\<close>, whether the operation returned or threw. When \<open>Unsubscribe\<close> returns
  and has left no listener, the descriptor holds \<open>None\<close>; \<open>UnsubscribeAll\<close> always leaves
  no listener, and when it returns the descriptor holds \<open>None\<close>. When the write of
  \<open>None\<close> does not succeed, an \<open>Unsubscribe\<close> of the only listener and an \<open>UnsubscribeAll\<close>
  have emptied the sequence all the same, throw a \<open>BluetoothException\<close>, and have issued
  that one write and no other; unless the write had timed out, the descriptor then
  still holds \<open>Notify\<close> where a listener was subscribed before. A write that timed out
  is given up, not cancelled, and nothing is said of the descriptor after it.
\<close>

theorem registry_invariant_preserved:
  assumes "registry_invariant c"
  shows "registry_invariant (fst (Characteristic_Subscribe env listener c)) \<and>
         registry_invariant (fst (Characteristic_Unsubscribe env lid c)) \<and>
         registry_invariant (fst (Characteristic_UnsubscribeAll env c)) \<and>
         (snd (Characteristic_Unsubscribe env lid c) = Inr () \<and>
          m_subscribers (fst (Characteristic_Unsubscribe env lid c)) = [] \<longrightarrow>
            descriptor (fst (Characteristic_Unsubscribe env lid c)) = DescriptorNone) \<and>
         m_subscribers (fst (Characteristic_UnsubscribeAll env c)) = [] \<and>
         (snd (Characteristic_UnsubscribeAll env c) = Inr () \<longrightarrow>
            descriptor (fst (Characteristic_UnsubscribeAll env c)) = DescriptorNone) \<and>
         (lid < length (m_subscribers c) \<and> length (m_subscribers c) = 1 \<and>
          \<not> write_succeeds env c \<longrightarrow>
            m_subscribers (fst (Characteristic_Unsubscribe env lid c)) = [] \<and>
            (\<exists>m. snd (Characteristic_Unsubscribe env lid c) = Inl (BluetoothException m)) \<and>
            descriptor_writes (fst (Characteristic_Unsubscribe env lid c)) =
              descriptor_writes c @ [DescriptorNone] \<and>
            (\<not> write_timed_out env c \<longrightarrow>
               descriptor (fst (Characteristic_Unsubscribe env lid c)) = Notify)) \<and>
         (\<not> write_succeeds env c \<longrightarrow>
            (\<exists>m. snd (Characteristic_UnsubscribeAll env c) = Inl (BluetoothException m)) \<and>
            descriptor_writes (fst (Characteristic_UnsubscribeAll env c)) =
              descriptor_writes c @ [DescriptorNone] \<and>
            (m_subscribers c \<noteq> [] \<and> \<not> write_timed_out env c \<longrightarrow>
               descriptor (fst (Characteristic_UnsubscribeAll env c)) = Notify))"
proof -
  note s = Subscribe_invariant [OF assms, of env listener]
  note u = Unsubscribe_invariant [OF assms, of env lid]
  note a = UnsubscribeAll_invariant [of env c]
  have ut: "lid < length (m_subscribers c) \<and> length (m_subscribers c) = 1 \<and>
          \<not> write_succeeds env c \<longrightarrow>
            m_subscribers (fst (Characteristic_Unsubscribe env lid c)) = [] \<and>
            (\<exists>m. snd (Characteristic_Unsubscribe env lid c) = Inl (BluetoothException m)) \<and>
            descriptor_writes (fst (Characteristic_Unsubscribe env lid c)) =
              descriptor_writes c @ [DescriptorNone] \<and>
            (\<not> write_timed_out env c \<longrightarrow>
               descriptor (fst (Characteristic_Unsubscribe env lid c)) = Notify)"
    using Unsubscribe_last_thrown [OF assms, of lid env] by blast
  have at: "\<not> write_succeeds env c \<longrightarrow>
            (\<exists>m. snd (Characteristic_UnsubscribeAll env c) = Inl (BluetoothException m)) \<and>
            descriptor_writes (fst (Characteristic_UnsubscribeAll env c)) =
              descriptor_writes c @ [DescriptorNone] \<and>
            (m_subscribers c \<noteq> [] \<and> \<not> write_timed_out env c \<longrightarrow>
               descriptor (fst (Characteristic_UnsubscribeAll env c)) = Notify)"
    using UnsubscribeAll_thrown_state [OF assms, of env] by blast
  from s u [THEN conjunct1] a [THEN conjunct1] u [THEN conjunct2]
    a [THEN conjunct2, THEN conjunct1] a [THEN conjunct2, THEN conjunct2] ut at
  show ?thesis by (intro conjI)
qed

theorem registry_invariant_preserved_witness:
  "registry_invariant (chr_with [0] [(0, ''A'')] 1 Notify [Notify]) \<and>
   registry_invariant
     (fst (Characteristic_Subscribe call_ok (recorder ''B'')
            (chr_with [0] [(0, ''A'')] 1 Notify [Notify]))) \<and>
   Characteristic_Unsubscribe call_ok 0 (chr_with [0] [(0, ''A'')] 1 Notify [Notify]) =
     (chr_with [] [] 1 DescriptorNone [Notify, DescriptorNone], Inr ()) \<and>
   Characteristic_UnsubscribeAll call_ok (chr_with [0] [(0, ''A'')] 1 Notify [Notify]) =
     (chr_with [] [] 1 DescriptorNone [Notify, DescriptorNone], Inr ()) \<and>
   \<not> write_succeeds call_failing (chr_with [0] [(0, ''A'')] 1 Notify [Notify]) \<and>
   \<not> write_timed_out call_failing (chr_with [0] [(0, ''A'')] 1 Notify [Notify]) \<and>
   m_subscribers
     (fst (Characteristic_Unsubscribe call_failing 0
            (chr_with [0] [(0, ''A'')] 1 Notify [Notify]))) = [] \<and>
   descriptor
     (fst (Characteristic_Unsubscribe call_failing 0
            (chr_with [0] [(0, ''A'')] 1 Notify [Notify]))) = Notify \<and>
   descriptor
     (fst (Characteristic_UnsubscribeAll call_failing
            (chr_with [0] [(0, ''A'')] 1 Notify [Notify]))) = Notify"
proof -
  let ?c = "chr_with [0] [(0, ''A'')] 1 Notify [Notify]"
  have inv: "registry_invariant ?c"
    by (simp add: registry_invariant_def chr_with_def)
  have u: "Characteristic_Unsubscribe call_ok 0 ?c =
      (chr_with [] [] 1 DescriptorNone [Notify, DescriptorNone], Inr ())"
    by (simp add: Unsubscribe_last_ok call_ok_succeeds chr_with_def revoke_def)
  have a: "Characteristic_UnsubscribeAll call_ok ?c =
      (chr_with [] [] 1 DescriptorNone [Notify, DescriptorNone], Inr ())"
    by (simp add: UnsubscribeAll_ok call_ok_succeeds chr_with_def revoke_def)
  note ok = registry_invariant_preserved [OF inv, of call_ok "recorder ''B''" 0]
  note sub = ok [THEN conjunct1]
  have failed: "\<not> write_succeeds call_failing ?c" by (rule call_failing_fails)
  have no_timeout: "\<not> write_timed_out call_failing ?c" by (rule call_failing_not_timed_out)
  have last: "0 < length (m_subscribers ?c) \<and> length (m_subscribers ?c) = 1 \<and>
      \<not> write_succeeds call_failing ?c"
    using failed by (simp add: chr_with_def)
  have some: "m_subscribers ?c \<noteq> [] \<and> \<not> write_timed_out call_failing ?c"
    using no_timeout by (simp add: chr_with_def)
  note thrown = registry_invariant_preserved [OF inv, of call_failing "recorder ''B''" 0]
  note by_id = thrown [THEN conjunct2, THEN conjunct2, THEN conjunct2, THEN conjunct2,
      THEN conjunct2, THEN conjunct2, THEN conjunct1, THEN mp, OF last]
  note by_all = thrown [THEN conjunct2, THEN conjunct2, THEN conjunct2, THEN conjunct2,
      THEN conjunct2, THEN conjunct2, THEN conjunct2, THEN mp, OF failed]
  note empty = by_id [THEN conjunct1]
  note kept = by_id [THEN conjunct2, THEN conjunct2, THEN conjunct2, THEN mp, OF no_timeout]
  note kept_all = by_all [THEN conjunct2, THEN conjunct2, THEN mp, OF some]
  show ?thesis
    by (intro conjI) (rule inv, rule sub, rule u, rule a, rule failed, rule no_timeout,
        rule empty, rule kept, rule kept_all)
qed

text \<open>
  C6 as claimed fails: A is the only listener and the descriptor holds \<open>Notify\<close>. An
  \<open>Unsubscribe(0)\<close> whose write of \<open>None\<close> fails, and an \<open>UnsubscribeAll\<close> whose write
  completes with \<open>Unreachable\<close>, both remove the listener, throw, and leave the
  descriptor at \<open>Notify\<close>: the sequence is empty and the producer is enabled.
\<close>

theorem disable_failure_leaves_producer_enabled:
  "Characteristic_Unsubscribe call_failing 0 (chr_with [0] [(0, ''A'')] 1 Notify [Notify]) =
     (chr_with [] [] 1 Notify [Notify, DescriptorNone],
      Inl (BluetoothException
            ''Bluetooth error. Code: -2147024891. Message: Access is denied.'')) \<and>
   Characteristic_UnsubscribeAll call_unreachable (chr_with [0] [(0, ''A'')] 1 Notify [Notify]) =
     (chr_with [] [] 1 Notify [Notify, DescriptorNone],
      Inl (BluetoothException ''Failed to write characteristic configuration''))"
  by (simp add: Characteristic_Unsubscribe_def Characteristic_UnsubscribeAll_def
      vector_at_def vector_erase_def chr_with_def revoke_def Let_def
      write_configuration_def WriteClientCharacteristicConfigurationDescriptor_def
      WaitWithTimeout_def call_failing_def call_unreachable_def WINRT_CALL_END_def
      to_string_def string_of_nat.simps digit_char_def)


section \<open>UnsubscribeAll, called twice\<close>

lemma poll_iteration_exiting:
  assumes "m_exiting s"
  shows "\<exists>t a. poll_iteration r s w = (s\<lparr>m_subscriberThread := t\<rparr>, w, a)"
proof (cases "m_subscriberThread s = Polling \<or> m_subscriberThread s = Woken")
  case True
  with assms have "\<exists>a. poll_iteration r s w = (s\<lparr>m_subscriberThread := Finished\<rparr>, w, a)"
    by (auto simp: poll_iteration_def)
  then show ?thesis by blast
next
  case False
  then have "poll_iteration r s w = (s, w, NoStep)"
    by (cases "m_subscriberThread s") (simp_all add: poll_iteration_def)
  moreover have "s = s\<lparr>m_subscriberThread := m_subscriberThread s\<rparr>" by simp
  ultimately have "poll_iteration r s w =
      (s\<lparr>m_subscriberThread := m_subscriberThread s\<rparr>, w, NoStep)"
    by simp
  then show ?thesis by blast
qed

lemma poll_iterations_exiting:
  assumes "m_exiting s"
  shows "\<exists>t. poll_iterations rs s w = (s\<lparr>m_subscriberThread := t\<rparr>, w)"
  using assms
proof (induction rs arbitrary: s)
  case Nil
  have "poll_iterations [] s w = (s\<lparr>m_subscriberThread := m_subscriberThread s\<rparr>, w)"
    by simp
  then show ?case by blast
next
  case (Cons r rs)
  from poll_iteration_exiting [OF Cons.prems, of r w]
  obtain t a where step: "poll_iteration r s w = (s\<lparr>m_subscriberThread := t\<rparr>, w, a)"
    by blast
  have "m_exiting (s\<lparr>m_subscriberThread := t\<rparr>)" using Cons.prems by simp
  from Cons.IH [OF this]
  obtain t' where "poll_iterations rs (s\<lparr>m_subscriberThread := t\<rparr>) w =
      (s\<lparr>m_subscriberThread := t\<rparr>\<lparr>m_subscriberThread := t'\<rparr>, w)"
    by blast
  with step have "poll_iterations (r # rs) s w = (s\<lparr>m_subscriberThread := t'\<rparr>, w)"
    by simp
  then show ?case by blast
qed

lemma poll_iterations_NoThread:
  "m_subscriberThread s = NoThread \<Longrightarrow> poll_iterations rs s w = (s, w)"
  by (induction rs) (simp_all add: poll_iteration_def)

lemma COMPort_UnsubscribeAll_Some:
  assumes "COMPort_UnsubscribeAll rs s w = Some (s', w')"
  shows "s' = s\<lparr>m_subscriberThread := NoThread, m_exiting := True, m_callbacks := []\<rparr> \<and> w' = w"
proof -
  have "m_exiting (s\<lparr>m_exiting := True\<rparr>)" by simp
  from poll_iterations_exiting [OF this, of rs w]
  obtain t where "poll_iterations rs (s\<lparr>m_exiting := True\<rparr>) w =
      (s\<lparr>m_exiting := True\<rparr>\<lparr>m_subscriberThread := t\<rparr>, w)"
    by blast
  with assms show ?thesis
    by (cases t) (auto simp: COMPort_UnsubscribeAll_def Let_def joinable_def split: if_splits)
qed

lemma COMPort_UnsubscribeAll_again:
  assumes "m_subscriberThread s = NoThread" and "m_exiting s" and "m_callbacks s = []"
  shows "COMPort_UnsubscribeAll rs s w = Some (s, w)"
proof -
  have "s\<lparr>m_exiting := True\<rparr> = s" using assms(2) by simp
  moreover have "s\<lparr>m_callbacks := [], m_subscriberThread := NoThread\<rparr> = s"
    using assms(1,3) by simp
  ultimately show ?thesis
    using assms(1)
    by (simp add: COMPort_UnsubscribeAll_def poll_iterations_NoThread Let_def joinable_def)
qed

lemma UnsubscribeAll_fst:
  "fst (Characteristic_UnsubscribeAll env c) =
     (if write_succeeds env c
      then c\<lparr>ValueChanged := fold revoke (m_subscribers c) (ValueChanged c),
             m_subscribers := [],
             descriptor_writes := descriptor_writes c @ [DescriptorNone],
             descriptor := DescriptorNone\<rparr>
      else c\<lparr>ValueChanged := fold revoke (m_subscribers c) (ValueChanged c),
             m_subscribers := [],
             descriptor_writes := descriptor_writes c @ [DescriptorNone]\<rparr>)"
proof (cases "write_succeeds env c")
  case True
  then show ?thesis by (simp add: UnsubscribeAll_ok)
next
  case False
  from UnsubscribeAll_failed [OF this]
  obtain m where "Characteristic_UnsubscribeAll env c =
           (c\<lparr>ValueChanged := fold revoke (m_subscribers c) (ValueChanged c),
               m_subscribers := [],
               descriptor_writes := descriptor_writes c @ [DescriptorNone]\<rparr>,
            Inl (BluetoothException m))"
    by blast
  with False show ?thesis by simp
qed

lemma UnsubscribeAll_snd:
  "(snd (Characteristic_UnsubscribeAll env c) = Inr ()) = write_succeeds env c"
proof (cases "write_succeeds env c")
  case True
  then show ?thesis by (simp add: UnsubscribeAll_ok)
next
  case False
  from UnsubscribeAll_failed [OF this]
  obtain m where "snd (Characteristic_UnsubscribeAll env c) = Inl (BluetoothException m)"
    by fastforce
  with False show ?thesis by simp
qed

text \<open>
  C4, as the code has it. Serial port: a call of \<open>UnsubscribeAll\<close> that returns leaves the
  port with no listener, no thread and \<open>m_exiting\<close> set, and has called no listener; a
  second call, under any schedule, returns and changes nothing. Characteristic: the
  first call leaves no subscriber; the second call, whatever the first ended with,
  changes nothing but this: it writes \<open>None\<close> to the descriptor once more, and the
  descriptor holds \<open>None\<close> if that write succeeds; it returns exactly when that write
  succeeds. When the first call returned, the descriptor holds \<open>None\<close> after the second.
\<close>

theorem UnsubscribeAll_twice:
  "(COMPort_UnsubscribeAll rs s w = Some (s', w') \<longrightarrow>
      s' = s\<lparr>m_subscriberThread := NoThread, m_exiting := True, m_callbacks := []\<rparr> \<and>
      w' = w \<and> COMPort_UnsubscribeAll rs' s' w' = Some (s', w')) \<and>
   m_subscribers (fst (Characteristic_UnsubscribeAll env c)) = [] \<and>
   fst (Characteristic_UnsubscribeAll env' (fst (Characteristic_UnsubscribeAll env c))) =
     (fst (Characteristic_UnsubscribeAll env c))
       \<lparr>descriptor_writes :=
          descriptor_writes (fst (Characteristic_UnsubscribeAll env c)) @ [DescriptorNone],
        descriptor :=
          (if write_succeeds env' c then DescriptorNone
           else descriptor (fst (Characteristic_UnsubscribeAll env c)))\<rparr> \<and>
   (snd (Characteristic_UnsubscribeAll env' (fst (Characteristic_UnsubscribeAll env c))) = Inr ()) =
     write_succeeds env' c \<and>
   (snd (Characteristic_UnsubscribeAll env c) = Inr () \<longrightarrow>
      descriptor (fst (Characteristic_UnsubscribeAll env'
                        (fst (Characteristic_UnsubscribeAll env c)))) = DescriptorNone)"
proof -
  have port: "COMPort_UnsubscribeAll rs s w = Some (s', w') \<longrightarrow>
      s' = s\<lparr>m_subscriberThread := NoThread, m_exiting := True, m_callbacks := []\<rparr> \<and>
      w' = w \<and> COMPort_UnsubscribeAll rs' s' w' = Some (s', w')"
  proof
    assume first: "COMPort_UnsubscribeAll rs s w = Some (s', w')"
    note eq = COMPort_UnsubscribeAll_Some [OF first, THEN conjunct1]
    note w = COMPort_UnsubscribeAll_Some [OF first, THEN conjunct2]
    from eq have "COMPort_UnsubscribeAll rs' s' w' = Some (s', w')"
      by (intro COMPort_UnsubscribeAll_again) simp_all
    with eq w show "s' = s\<lparr>m_subscriberThread := NoThread, m_exiting := True, m_callbacks := []\<rparr> \<and>
      w' = w \<and> COMPort_UnsubscribeAll rs' s' w' = Some (s', w')"
      by (intro conjI)
  qed
  have empty: "m_subscribers (fst (Characteristic_UnsubscribeAll env c)) = []"
    by (simp add: UnsubscribeAll_fst)
  have again: "fst (Characteristic_UnsubscribeAll env' (fst (Characteristic_UnsubscribeAll env c))) =
     (fst (Characteristic_UnsubscribeAll env c))
       \<lparr>descriptor_writes :=
          descriptor_writes (fst (Characteristic_UnsubscribeAll env c)) @ [DescriptorNone],
        descriptor :=
          (if write_succeeds env' c then DescriptorNone
           else descriptor (fst (Characteristic_UnsubscribeAll env c)))\<rparr>"
    by (cases "write_succeeds env c"; cases "write_succeeds env' c")
       (simp_all add: UnsubscribeAll_fst)
  have result: "(snd (Characteristic_UnsubscribeAll env'
                       (fst (Characteristic_UnsubscribeAll env c))) = Inr ()) =
     write_succeeds env' c"
    by (cases "write_succeeds env c") (simp_all add: UnsubscribeAll_snd UnsubscribeAll_fst)
  have disabled: "snd (Characteristic_UnsubscribeAll env c) = Inr () \<longrightarrow>
      descriptor (fst (Characteristic_UnsubscribeAll env'
                        (fst (Characteristic_UnsubscribeAll env c)))) = DescriptorNone"
    by (cases "write_succeeds env c"; cases "write_succeeds env' c")
       (simp_all add: UnsubscribeAll_snd UnsubscribeAll_fst)
  from port empty again result disabled show ?thesis
    by (intro conjI)
qed

theorem UnsubscribeAll_twice_witness:
  "COMPort_UnsubscribeAll [ReadFile_ok []] (port_with [''A''] Polling False) [] =
     Some (port_with [] NoThread True, []) \<and>
   COMPort_UnsubscribeAll [ReadFile_ok [1]] (port_with [] NoThread True) [] =
     Some (port_with [] NoThread True, []) \<and>
   snd (Characteristic_UnsubscribeAll call_ok (chr_with [0] [(0, ''A'')] 1 Notify [Notify])) =
     Inr () \<and>
   descriptor (fst (Characteristic_UnsubscribeAll call_failing
     (fst (Characteristic_UnsubscribeAll call_ok
            (chr_with [0] [(0, ''A'')] 1 Notify [Notify]))))) = DescriptorNone"
proof -
  have first: "COMPort_UnsubscribeAll [ReadFile_ok []] (port_with [''A''] Polling False) [] =
     Some (port_with [] NoThread True, [])"
    by (simp add: COMPort_UnsubscribeAll_def port_with_def poll_iteration_def joinable_def)
  have ok: "snd (Characteristic_UnsubscribeAll call_ok
                  (chr_with [0] [(0, ''A'')] 1 Notify [Notify])) = Inr ()"
    by (simp add: UnsubscribeAll_ok call_ok_succeeds)
  note twice = UnsubscribeAll_twice
    [of "[ReadFile_ok []]" "port_with [''A''] Polling False" "[]" "port_with [] NoThread True"
        "[]" "[ReadFile_ok [1]]" call_ok "chr_with [0] [(0, ''A'')] 1 Notify [Notify]"
        call_failing]
  note second = twice [THEN conjunct1, THEN mp, OF first, THEN conjunct2, THEN conjunct2]
  note disabled = twice [THEN conjunct2, THEN conjunct2, THEN conjunct2, THEN conjunct2,
      THEN mp, OF ok]
  show ?thesis
    by (intro conjI) (rule first, rule second, rule ok, rule disabled)
qed

text \<open>
  C4 as claimed fails on the characteristic: after a first \<open>UnsubscribeAll\<close> that
  removed A and disabled the notifications, a second call issues one more descriptor
  write, and when that write does not succeed the second call throws.
\<close>

theorem second_UnsubscribeAll_writes_again:
  "Characteristic_UnsubscribeAll call_ok (chr_with [0] [(0, ''A'')] 1 Notify [Notify]) =
     (chr_with [] [] 1 DescriptorNone [Notify, DescriptorNone], Inr ()) \<and>
   Characteristic_UnsubscribeAll call_ok
     (chr_with [] [] 1 DescriptorNone [Notify, DescriptorNone]) =
     (chr_with [] [] 1 DescriptorNone [Notify, DescriptorNone, DescriptorNone], Inr ()) \<and>
   Characteristic_UnsubscribeAll call_unreachable
     (chr_with [] [] 1 DescriptorNone [Notify, DescriptorNone]) =
     (chr_with [] [] 1 DescriptorNone [Notify, DescriptorNone, DescriptorNone],
      Inl (BluetoothException ''Failed to write characteristic configuration''))"
  by (simp add: Characteristic_UnsubscribeAll_def chr_with_def revoke_def Let_def
      write_configuration_def WriteClientCharacteristicConfigurationDescriptor_def
      WaitWithTimeout_def call_ok_def call_unreachable_def WINRT_CALL_END_def)


section \<open>Teardown of the bridge\<close>











text \<open>
  The first step itself does not return when the caller of \<open>port.UnsubscribeAll()\<close> gets
  the mutex before the poll thread has seen \<open>m_exiting\<close>: it joins a thread that waits
  for the mutex it holds.
\<close>

lemma teardown_blocks_when_the_caller_gets_the_mutex_first:
  "Connect_teardown [] call_ok None
     (bridge_with (port_with [''P''] Polling False)
        (chr_with [0] [(0, ''C'')] 1 Notify [Notify]) True) [] = None"
  by (simp add: Connect_teardown_def bridge_with_def COMPort_UnsubscribeAll_def port_with_def
      joinable_def)


end
